theory Spec2Isabelle
  imports Complex_Main
begin

section \<open>The building-management controller of assignment5.py\<close>

text \<open>
  The controller keeps its state in module-level globals that three loops and three button
  handlers read and write. The embedding collects the globals, the three LED outputs, the
  operations sent to the LCD and the lines appended to log.txt in one record; every handler
  and every loop body is a function from the state to the state.

  Temperatures and the weather index are computed in Python floats, which are IEEE 754
  binary64 numbers: every operation is the exact result rounded to the nearest double, ties
  to even. The built-in \<open>sum\<close> is the one of CPython up to 3.11, which adds from left
  to right. The clock values of \<open>time.time()\<close> are exact rationals and an argument
  of the poll; the timestamps that \<open>log_event\<close> prepends and the
  \<open>time.sleep\<close> calls are left out.
\<close>

subsection \<open>Python values and built-ins\<close>

datatype error = TypeError | OverflowError | ValueError

text \<open>A Python float: a finite binary64 value, given by the rational it denotes, an
  infinity or a NaN. The sign of a zero is not kept; nothing here observes it.\<close>

datatype pyfloat = Finite rat | PosInf | NegInf | NaN

text \<open>The number of binary digits of a positive integer, as \<open>int.bit_length\<close>.\<close>

function bit_length :: "int \<Rightarrow> int" where
  "bit_length n = (if n \<le> 0 then 0 else bit_length (n div 2) + 1)"
  by pat_completeness auto
termination
  by (relation "measure nat") auto

declare bit_length.simps [simp del]

text \<open>Two to the power \<open>k\<close>, for any integer \<open>k\<close>.\<close>

definition pow2 :: "int \<Rightarrow> rat" where
  "pow2 k = (if 0 \<le> k then of_int (2 ^ nat k) else 1 / of_int (2 ^ nat (- k)))"

text \<open>For positive \<open>x\<close>, the exponent \<open>e\<close> with
  \<open>pow2 e \<le> x < pow2 (e + 1)\<close>.\<close>

definition ilog2 :: "rat \<Rightarrow> int" where
  "ilog2 x =
     (case quotient_of x of
        (p, q) \<Rightarrow>
          (let d = bit_length p - bit_length q
           in if pow2 d \<le> x then d else d - 1))"

text \<open>To the nearest integer, ties to even.\<close>

definition round_half_even :: "rat \<Rightarrow> int" where
  "round_half_even x =
     (let f = \<lfloor>x\<rfloor>; d = x - of_int f
      in if d < 1 / 2 then f
         else if 1 / 2 < d then f + 1
         else if even f then f else f + 1)"

text \<open>Rounding of an exact result to binary64. With \<open>e\<close> the exponent of
  \<open>x\<close>, but at least -1022, the doubles near \<open>x\<close> are the multiples of
  \<open>pow2 (e - 52)\<close>; \<open>m\<close> counts the nearest multiple, ties to even, and its
  magnitude is at most \<open>pow2 53\<close>, which is 9007199254740992. The result is an
  infinity when the rounded value reaches \<open>pow2 1024\<close>: when \<open>e\<close> is 1024
  or more, or 1023 with \<open>m\<close> rounded up to \<open>pow2 53\<close>.\<close>

definition fl :: "rat \<Rightarrow> pyfloat" where
  "fl x =
     (if x = 0 then Finite 0
      else
        (let e = max (ilog2 \<bar>x\<bar>) (- 1022);
             m = round_half_even (x * pow2 (52 - e))
         in if 1024 \<le> e \<or> (e = 1023 \<and> \<bar>m\<bar> = 9007199254740992)
            then (if 0 < x then PosInf else NegInf)
            else Finite (of_int m * pow2 (e - 52))))"

text \<open>Addition and multiplication: the exact result, rounded; the IEEE rules for the
  infinities and NaN.\<close>

fun fadd :: "pyfloat \<Rightarrow> pyfloat \<Rightarrow> pyfloat" where
  "fadd (Finite a) (Finite b) = fl (a + b)"
| "fadd NaN y = NaN"
| "fadd x NaN = NaN"
| "fadd PosInf NegInf = NaN"
| "fadd NegInf PosInf = NaN"
| "fadd PosInf y = PosInf"
| "fadd NegInf y = NegInf"
| "fadd x PosInf = PosInf"
| "fadd x NegInf = NegInf"

fun fmul :: "pyfloat \<Rightarrow> pyfloat \<Rightarrow> pyfloat" where
  "fmul (Finite a) (Finite b) = fl (a * b)"
| "fmul NaN y = NaN"
| "fmul x NaN = NaN"
| "fmul (Finite a) PosInf = (if a = 0 then NaN else if 0 < a then PosInf else NegInf)"
| "fmul (Finite a) NegInf = (if a = 0 then NaN else if 0 < a then NegInf else PosInf)"
| "fmul PosInf (Finite b) = (if b = 0 then NaN else if 0 < b then PosInf else NegInf)"
| "fmul NegInf (Finite b) = (if b = 0 then NaN else if 0 < b then NegInf else PosInf)"
| "fmul PosInf PosInf = PosInf"
| "fmul PosInf NegInf = NegInf"
| "fmul NegInf PosInf = NegInf"
| "fmul NegInf NegInf = PosInf"

text \<open>Division. The source divides by the literals 5 and 3 only, so the
  ZeroDivisionError that Python raises for a zero divisor cannot arise; the value given here
  for a zero divisor is never used.\<close>

fun fdiv :: "pyfloat \<Rightarrow> pyfloat \<Rightarrow> pyfloat" where
  "fdiv (Finite a) (Finite b) = (if b = 0 then NaN else fl (a / b))"
| "fdiv NaN y = NaN"
| "fdiv x NaN = NaN"
| "fdiv (Finite a) PosInf = Finite 0"
| "fdiv (Finite a) NegInf = Finite 0"
| "fdiv PosInf (Finite b) = (if b = 0 then NaN else if 0 < b then PosInf else NegInf)"
| "fdiv NegInf (Finite b) = (if b = 0 then NaN else if 0 < b then NegInf else PosInf)"
| "fdiv PosInf PosInf = NaN"
| "fdiv PosInf NegInf = NaN"
| "fdiv NegInf PosInf = NaN"
| "fdiv NegInf NegInf = NaN"

text \<open>An int where a float is needed: the nearest double, OverflowError when there is
  none.\<close>

definition float_of_int :: "int \<Rightarrow> error + pyfloat" where
  "float_of_int n = (case fl (of_int n) of Finite y \<Rightarrow> Inr (Finite y) | _ \<Rightarrow> Inl OverflowError)"

text \<open>Python 3 \<open>round(x)\<close> with one argument, on a float: to the nearest integer,
  ties to even; OverflowError on an infinity and ValueError on a NaN.\<close>

fun py_round :: "pyfloat \<Rightarrow> error + int" where
  "py_round (Finite x) = Inr (round_half_even x)"
| "py_round PosInf = Inl OverflowError"
| "py_round NegInf = Inl OverflowError"
| "py_round NaN = Inl ValueError"

text \<open>\<open>sum(xs)\<close> on a sequence of floats: the start value is the int 0, and
  \<open>0 + x\<close> is \<open>x\<close>; after that a float accumulator takes the remaining
  entries from left to right.\<close>

fun py_sum :: "pyfloat list \<Rightarrow> pyfloat" where
  "py_sum [] = Finite 0"
| "py_sum (x # xs) = foldl fadd (fadd (Finite 0) x) xs"

text \<open>What \<open>response.json()\<close> can hold: the values of a parsed JSON document.\<close>

datatype pyval =
    PNone
  | PBool bool
  | PInt int
  | PFloat pyfloat
  | PStr string
  | PList "pyval list"
  | PDict "(string \<times> pyval) list"

text \<open>\<open>v[key]\<close> with a string key: only a dict that has the key answers, everything
  else raises (KeyError or TypeError), which is \<open>None\<close> here.\<close>

fun subscript :: "pyval \<Rightarrow> string \<Rightarrow> pyval option" where
  "subscript (PDict kvs) k = map_of kvs k"
| "subscript _ k = None"

text \<open>\<open>0.05 * humidity\<close>: the literal is the double nearest to 1/20; an int is
  converted to a float first (OverflowError when it is too large), a bool counts as 0 or 1,
  and anything that is not a number raises TypeError.\<close>

fun times_005 :: "pyval \<Rightarrow> error + pyfloat" where
  "times_005 (PInt n) =
     (case float_of_int n of Inl e \<Rightarrow> Inl e | Inr x \<Rightarrow> Inr (fmul (fl (5 / 100)) x))"
| "times_005 (PFloat x) = Inr (fmul (fl (5 / 100)) x)"
| "times_005 (PBool b) = Inr (fmul (fl (5 / 100)) (Finite (if b then 1 else 0)))"
| "times_005 _ = Inl TypeError"

definition digit_char :: "nat \<Rightarrow> char" where
  "digit_char n = ''0123456789'' ! (n mod 10)"

function str_nat :: "nat \<Rightarrow> string" where
  "str_nat n = (if n < 10 then [digit_char n] else str_nat (n div 10) @ [digit_char (n mod 10)])"
  by pat_completeness auto
termination
  by (relation "measure (\<lambda>n. n)") auto

declare str_nat.simps [simp del]

text \<open>\<open>str(i)\<close> as an f-string formats an int.\<close>

definition str_int :: "int \<Rightarrow> string" where
  "str_int i = (if i < 0 then CHR ''-'' # str_nat (nat (- i)) else str_nat (nat i))"

subsection \<open>The shared state\<close>

datatype lcd_op = Clear | Write nat nat string

record state =
  temperature_readings :: "pyfloat list"
  desired_temp :: int
  ambient_light_on :: bool
  door_open :: bool
  last_motion_time :: rat
  fire_alarm_active :: bool
  hvac_state :: string
  red_led :: bool
  blue_led :: bool
  green_led :: bool
  lcd :: "lcd_op list"
  log_file :: "string list"

text \<open>\<open>log_event\<close> appends one line to log.txt.\<close>

definition log_event :: "string \<Rightarrow> state \<Rightarrow> state" where
  "log_event message st = st\<lparr>log_file := log_file st @ [message]\<rparr>"

definition lcd_clear :: "state \<Rightarrow> state" where
  "lcd_clear st = st\<lparr>lcd := lcd st @ [Clear]\<rparr>"

definition lcd_write :: "nat \<Rightarrow> nat \<Rightarrow> string \<Rightarrow> state \<Rightarrow> state" where
  "lcd_write x y s st = st\<lparr>lcd := lcd st @ [Write x y s]\<rparr>"

text \<open>The globals of lines 33 to 39 after \<open>initialize_system\<close> has run.\<close>

definition initial_state :: state where
  "initial_state =
     \<lparr>temperature_readings = [], desired_temp = 72, ambient_light_on = False,
      door_open = False, last_motion_time = 0, fire_alarm_active = False,
      hvac_state = ''OFF'', red_led = False, blue_led = False, green_led = False,
      lcd = [Clear, Write 0 0 ''BMS Initializing'', Clear, Write 0 0 ''System Ready'', Clear],
      log_file = []\<rparr>"

subsection \<open>Motion detection thread\<close>

text \<open>One pass of the loop of \<open>motion_monitor\<close>: \<open>motion\<close> is what
  \<open>pir.motion_detected\<close> answers, \<open>now\<close> what \<open>time.time()\<close> answers.\<close>

definition motion_monitor :: "bool \<Rightarrow> rat \<Rightarrow> state \<Rightarrow> state" where
  "motion_monitor motion now st =
     (if \<not> fire_alarm_active st then
        if motion then
          (let st1 = (if \<not> ambient_light_on st
                      then log_event ''LIGHTS ON'' (st\<lparr>green_led := True, ambient_light_on := True\<rparr>)
                      else st)
           in st1\<lparr>last_motion_time := now\<rparr>)
        else if ambient_light_on st \<and> now - last_motion_time st > 10 then
          log_event ''LIGHTS OFF'' (st\<lparr>green_led := False, ambient_light_on := False\<rparr>)
        else st
      else st)"

fun motion_polls :: "(bool \<times> rat) list \<Rightarrow> state \<Rightarrow> state" where
  "motion_polls [] st = st"
| "motion_polls ((motion, now) # ps) st = motion_polls ps (motion_monitor motion now st)"

subsection \<open>Fire alarm thread\<close>

text \<open>One pass of the loop of \<open>fire_alarm_loop\<close>.\<close>

definition fire_alarm_loop :: "state \<Rightarrow> state" where
  "fire_alarm_loop st =
     (if fire_alarm_active st then
        lcd_write 0 1 ''DOOR: OPEN - EVAC''
          (lcd_write 0 0 ''!!! FIRE ALERT !!!''
            (lcd_clear
              (st\<lparr>green_led := \<not> green_led st, red_led := \<not> red_led st,
                  blue_led := \<not> blue_led st\<rparr>)))
      else st)"

subsection \<open>Door/window handler\<close>

definition toggle_door_state :: "state \<Rightarrow> state" where
  "toggle_door_state st =
     (let st1 = lcd_clear (st\<lparr>door_open := \<not> door_open st\<rparr>);
          st2 = (if door_open st1 then
                   log_event ''HVAC OFF''
                     (log_event ''DOOR OPEN''
                       ((lcd_write 0 1 (''HVAC: '' @ hvac_state st1)
                          (lcd_write 0 0 ''DOOR: OPEN'' st1))
                        \<lparr>red_led := False, blue_led := False\<rparr>))
                 else
                   log_event ''DOOR CLOSED''
                     (lcd_write 0 1 (''HVAC: '' @ hvac_state st1)
                       (lcd_write 0 0 ''DOOR: CLOSED'' st1)))
      in lcd_clear st2)"

subsection \<open>Temperature sensor\<close>

text \<open>What the DHT11 answers to one read: the status code of \<open>readDHT11\<close> (0 is
  success) and the Celsius value \<open>getTemperature\<close> then gives, a float.\<close>

datatype reading = Reading (chk: int) (temp_c: pyfloat)

text \<open>\<open>append\<close> on a \<open>deque(maxlen=3)\<close>: the new entry goes to the right end and,
  when that makes four, the leftmost entry is dropped.\<close>

definition deque_append :: "'a list \<Rightarrow> 'a \<Rightarrow> 'a list" where
  "deque_append w x = (let w' = w @ [x] in if length w' > 3 then tl w' else w')"

text \<open>Line 139, \<open>temp_c * 9 / 5 + 32\<close>, with 9, 5 and 32 converted to floats.\<close>

definition fahrenheit :: "pyfloat \<Rightarrow> pyfloat" where
  "fahrenheit c = fadd (fdiv (fmul c (Finite 9)) (Finite 5)) (Finite 32)"

text \<open>Line 144, \<open>round(sum(temperature_readings) / 3)\<close>; \<open>round\<close> raises
  when the mean is an infinity or a NaN.\<close>

definition window_average :: "pyfloat list \<Rightarrow> error + int" where
  "window_average w = py_round (fdiv (py_sum w) (Finite 3))"

text \<open>The read either returns (an average or \<open>None\<close>, and the state with the new
  window) or raises.\<close>

definition get_average_temperature :: "reading \<Rightarrow> state \<Rightarrow> error + int option \<times> state" where
  "get_average_temperature r st =
     (if chk r = 0 then
        (let temp_f = fahrenheit (temp_c r);
             st' = st\<lparr>temperature_readings := deque_append (temperature_readings st) temp_f\<rparr>
         in if length (temperature_readings st') = 3 then
              (case window_average (temperature_readings st') of
                 Inl e \<Rightarrow> Inl e
               | Inr avg \<Rightarrow> Inr (Some avg, st'))
            else Inr (None, st'))
      else Inr (None, st))"

text \<open>A sequence of reads, one after the other: what each returned, and the state left. A
  read that raises ends the sequence, as it ends the process.\<close>

fun pushes :: "reading list \<Rightarrow> state \<Rightarrow> error + int option list \<times> state" where
  "pushes [] st = Inr ([], st)"
| "pushes (r # rs) st =
     (case get_average_temperature r st of
        Inl e \<Rightarrow> Inl e
      | Inr (a, st') \<Rightarrow>
          (case pushes rs st' of
             Inl e \<Rightarrow> Inl e
           | Inr (as, st'') \<Rightarrow> Inr (a # as, st'')))"

subsection \<open>Humidity via API\<close>

text \<open>What \<open>requests.get\<close> does: it raises (timeout, connection error), or it answers
  with a status code and a body that \<open>response.json()\<close> parses or not.\<close>

datatype http_result = RequestException | Response int "pyval option"

definition get_humidity :: "http_result \<Rightarrow> pyval" where
  "get_humidity res =
     (case res of
        RequestException \<Rightarrow> PInt 55
      | Response status_code body \<Rightarrow>
          if status_code = 200 then
            (case body of
               None \<Rightarrow> PInt 55
             | Some j \<Rightarrow>
                 (case subscript j ''main'' of
                    None \<Rightarrow> PInt 55
                  | Some m \<Rightarrow>
                      (case subscript m ''humidity'' of
                         None \<Rightarrow> PInt 55
                       | Some h \<Rightarrow> h)))
          else PInt 55)"

text \<open>The contract the specification gives for the fetch: an integer in [0, 100].\<close>

fun humidity_in_contract :: "pyval \<Rightarrow> bool" where
  "humidity_in_contract (PInt n) = (0 \<le> n \<and> n \<le> 100)"
| "humidity_in_contract _ = False"

subsection \<open>Temperature adjustment\<close>

definition increase_desired_temp :: "state \<Rightarrow> state" where
  "increase_desired_temp st =
     (if desired_temp st < 99 then st\<lparr>desired_temp := desired_temp st + 1\<rparr> else st)"

definition decrease_desired_temp :: "state \<Rightarrow> state" where
  "decrease_desired_temp st =
     (if desired_temp st > 65 then st\<lparr>desired_temp := desired_temp st - 1\<rparr> else st)"

datatype button = Blue | Red

fun press :: "button \<Rightarrow> state \<Rightarrow> state" where
  "press Blue st = increase_desired_temp st"
| "press Red st = decrease_desired_temp st"

fun presses :: "button list \<Rightarrow> state \<Rightarrow> state" where
  "presses [] st = st"
| "presses (b # bs) st = presses bs (press b st)"

subsection \<open>HVAC main loop\<close>

text \<open>Lines 193 to 208 of \<open>monitor_environment\<close>: the fire alarm.\<close>

definition fire_alarm_check :: "int \<Rightarrow> state \<Rightarrow> state" where
  "fire_alarm_check wi st =
     (if wi > 90 then
        if \<not> fire_alarm_active st then
          log_event ''HVAC OFF''
            (log_event ''FIRE ALARM ON''
              (st\<lparr>fire_alarm_active := True, door_open := True,
                  red_led := False, blue_led := False\<rparr>))
        else st
      else if fire_alarm_active st \<and> wi \<le> 90 then
        lcd_write 0 1 ''Resuming...''
          (lcd_write 0 0 ''Fire Over''
            (lcd_clear
              (log_event ''FIRE ALARM OFF''
                (st\<lparr>fire_alarm_active := False, green_led := False\<rparr>))))
      else st)"

text \<open>Lines 211 to 238: the status display and the HVAC decision.\<close>

definition hvac_control :: "int \<Rightarrow> int \<Rightarrow> state \<Rightarrow> state" where
  "hvac_control wi avg_temp st =
     (if \<not> fire_alarm_active st then
        (let st1 = lcd_write 0 1
                     (''Set:'' @ str_int (desired_temp st)
                        @ '' L:'' @ (if ambient_light_on st then ''ON'' else ''OFF'')
                        @ '' D:'' @ (if door_open st then ''OPEN'' else ''CLOSED''))
                     (lcd_write 0 0
                        (''WI:'' @ str_int wi @ '' T:'' @ str_int avg_temp
                           @ '' H:'' @ hvac_state st)
                        (lcd_clear st));
             prev_state = hvac_state st1;
             st2 = (if door_open st1 then
                      st1\<lparr>hvac_state := ''OFF'', red_led := False, blue_led := False\<rparr>
                    else if wi < desired_temp st1 - 3 then
                      st1\<lparr>hvac_state := ''HEAT'', red_led := True, blue_led := False\<rparr>
                    else if wi > desired_temp st1 + 3 then
                      st1\<lparr>hvac_state := ''AC'', blue_led := True, red_led := False\<rparr>
                    else
                      st1\<lparr>hvac_state := ''OFF'', red_led := False, blue_led := False\<rparr>)
         in if hvac_state st2 \<noteq> prev_state
            then log_event (''HVAC '' @ hvac_state st2) st2
            else st2)
      else st)"

text \<open>One pass of the loop of \<open>monitor_environment\<close> (lines 188 to 240); \<open>humidity\<close>
  is the value fetched once before the loop. Line 190 raises when the humidity is not a
  number or too large for a float, and when the sum is an infinity or a NaN; an exception
  ends the loop and the process.\<close>

definition monitor_environment :: "pyval \<Rightarrow> reading \<Rightarrow> state \<Rightarrow> error + state" where
  "monitor_environment humidity r st =
     (case get_average_temperature r st of
        Inl e \<Rightarrow> Inl e
      | Inr (None, st') \<Rightarrow> Inr st'
      | Inr (Some avg_temp, st') \<Rightarrow>
          (case times_005 humidity of
             Inl e \<Rightarrow> Inl e
           | Inr p \<Rightarrow>
               (case float_of_int avg_temp of
                  Inl e \<Rightarrow> Inl e
                | Inr a \<Rightarrow>
                    (case py_round (fadd a p) of
                       Inl e \<Rightarrow> Inl e
                     | Inr wi \<Rightarrow> Inr (hvac_control wi avg_temp (fire_alarm_check wi st'))))))"

subsection \<open>Interleavings\<close>

text \<open>The slow control loop and the button handlers, each step taken as a whole.\<close>

datatype event = Cycle reading | DoorPress | ButtonPress button | MotionPoll bool rat

fun step :: "pyval \<Rightarrow> event \<Rightarrow> state \<Rightarrow> error + state" where
  "step humidity (Cycle r) st = monitor_environment humidity r st"
| "step humidity DoorPress st = Inr (toggle_door_state st)"
| "step humidity (ButtonPress b) st = Inr (press b st)"
| "step humidity (MotionPoll motion now) st = Inr (motion_monitor motion now st)"

fun run :: "pyval \<Rightarrow> event list \<Rightarrow> state \<Rightarrow> error + state" where
  "run humidity [] st = Inr st"
| "run humidity (e # es) st =
     (case step humidity e st of Inl err \<Rightarrow> Inl err | Inr st' \<Rightarrow> run humidity es st')"

subsection \<open>Invariants of the alarm\<close>

text \<open>While the alarm is active the heat and cool outputs are off.\<close>

definition outputs_off :: "state \<Rightarrow> bool" where
  "outputs_off st = (fire_alarm_active st \<longrightarrow> \<not> red_led st \<and> \<not> blue_led st)"

text \<open>While the alarm is active the door is open.\<close>

definition door_forced :: "state \<Rightarrow> bool" where
  "door_forced st = (fire_alarm_active st \<longrightarrow> door_open st)"

section \<open>Properties\<close>

subsection \<open>Evaluating float arithmetic on the values used below\<close>

lemma floor_rat_numeral_div [simp]:
  "\<lfloor>numeral a / numeral b :: rat\<rfloor> = numeral a div numeral b"
  using floor_divide_of_int_eq[of "numeral a" "numeral b", where ?'a = rat] by simp

lemma fl_zero: "fl 0 = Finite 0"
  by (simp add: fl_def)

text \<open>Small integers and quarters are doubles; 0.05 is not, and 0.05 * 55 rounds to 2.75.\<close>

lemma fl_values:
  "fl 32 = Finite 32" "fl 64 = Finite 64" "fl 96 = Finite 96" "fl 55 = Finite 55"
  "fl (1 / 20) = Finite (3602879701896397 / 72057594037927936)"
  "fl (198158383604301835 / 72057594037927936) = Finite (11 / 4)"
  "fl (139 / 4) = Finite (139 / 4)" "fl 450 = Finite 450" "fl 90 = Finite 90"
  "fl 122 = Finite 122" "fl 186 = Finite 186" "fl 62 = Finite 62"
  "fl (259 / 4) = Finite (259 / 4)" "fl 154 = Finite 154" "fl 276 = Finite 276"
  "fl 92 = Finite 92" "fl (379 / 4) = Finite (379 / 4)" "fl 244 = Finite 244"
  "fl 366 = Finite 366" "fl (499 / 4) = Finite (499 / 4)" "fl 315 = Finite 315"
  "fl 63 = Finite 63" "fl 95 = Finite 95" "fl 190 = Finite 190" "fl 285 = Finite 285"
  "fl (391 / 4) = Finite (391 / 4)"
  by code_simp+

lemmas eval_defs = monitor_environment_def get_average_temperature_def deque_append_def
  fahrenheit_def window_average_def float_of_int_def round_half_even_def
  fire_alarm_check_def hvac_control_def toggle_door_state_def
  log_event_def lcd_clear_def lcd_write_def initial_state_def Let_def fl_zero fl_values

subsection \<open>What the device helpers leave alone\<close>

lemma log_event_fields [simp]:
  "temperature_readings (log_event m st) = temperature_readings st"
  "desired_temp (log_event m st) = desired_temp st"
  "ambient_light_on (log_event m st) = ambient_light_on st"
  "door_open (log_event m st) = door_open st"
  "last_motion_time (log_event m st) = last_motion_time st"
  "fire_alarm_active (log_event m st) = fire_alarm_active st"
  "hvac_state (log_event m st) = hvac_state st"
  "red_led (log_event m st) = red_led st"
  "blue_led (log_event m st) = blue_led st"
  "green_led (log_event m st) = green_led st"
  "lcd (log_event m st) = lcd st"
  "log_file (log_event m st) = log_file st @ [m]"
  by (simp_all add: log_event_def)

lemma lcd_clear_fields [simp]:
  "temperature_readings (lcd_clear st) = temperature_readings st"
  "desired_temp (lcd_clear st) = desired_temp st"
  "ambient_light_on (lcd_clear st) = ambient_light_on st"
  "door_open (lcd_clear st) = door_open st"
  "last_motion_time (lcd_clear st) = last_motion_time st"
  "fire_alarm_active (lcd_clear st) = fire_alarm_active st"
  "hvac_state (lcd_clear st) = hvac_state st"
  "red_led (lcd_clear st) = red_led st"
  "blue_led (lcd_clear st) = blue_led st"
  "green_led (lcd_clear st) = green_led st"
  "lcd (lcd_clear st) = lcd st @ [Clear]"
  "log_file (lcd_clear st) = log_file st"
  by (simp_all add: lcd_clear_def)

lemma lcd_write_fields [simp]:
  "temperature_readings (lcd_write x y s st) = temperature_readings st"
  "desired_temp (lcd_write x y s st) = desired_temp st"
  "ambient_light_on (lcd_write x y s st) = ambient_light_on st"
  "door_open (lcd_write x y s st) = door_open st"
  "last_motion_time (lcd_write x y s st) = last_motion_time st"
  "fire_alarm_active (lcd_write x y s st) = fire_alarm_active st"
  "hvac_state (lcd_write x y s st) = hvac_state st"
  "red_led (lcd_write x y s st) = red_led st"
  "blue_led (lcd_write x y s st) = blue_led st"
  "green_led (lcd_write x y s st) = green_led st"
  "lcd (lcd_write x y s st) = lcd st @ [Write x y s]"
  "log_file (lcd_write x y s st) = log_file st"
  by (simp_all add: lcd_write_def)

subsection \<open>The setpoint\<close>

lemma press_range:
  "65 \<le> desired_temp st \<and> desired_temp st \<le> 99 \<Longrightarrow>
   65 \<le> desired_temp (press b st) \<and> desired_temp (press b st) \<le> 99"
  by (cases b) (auto simp: increase_desired_temp_def decrease_desired_temp_def)

lemma presses_range:
  "65 \<le> desired_temp st \<and> desired_temp st \<le> 99 \<Longrightarrow>
   65 \<le> desired_temp (presses bs st) \<and> desired_temp (presses bs st) \<le> 99"
proof (induction bs arbitrary: st)
  case Nil
  then show ?case by simp
next
  case (Cons b bs)
  show ?case using Cons.IH[OF press_range[OF Cons.prems]] by simp
qed

text \<open>
  C8. After any sequence of presses of the blue (increase) and red (decrease) buttons from
  the initial setpoint 72 the setpoint lies in [65, 99]. An increase at 99 and a decrease at
  65 leave the whole state as it is; below 99 an increase adds exactly 1 and above 65 a
  decrease subtracts exactly 1, touching no other field.
\<close>

theorem setpoint_saturates:
  "65 \<le> desired_temp (presses bs initial_state)
   \<and> desired_temp (presses bs initial_state) \<le> 99
   \<and> (desired_temp st = 99 \<longrightarrow> increase_desired_temp st = st)
   \<and> (desired_temp st = 65 \<longrightarrow> decrease_desired_temp st = st)
   \<and> (desired_temp st < 99 \<longrightarrow>
        increase_desired_temp st = st\<lparr>desired_temp := desired_temp st + 1\<rparr>)
   \<and> (65 < desired_temp st \<longrightarrow>
        decrease_desired_temp st = st\<lparr>desired_temp := desired_temp st - 1\<rparr>)"
proof -
  have "65 \<le> desired_temp initial_state \<and> desired_temp initial_state \<le> 99"
    by (simp add: initial_state_def)
  from presses_range[OF this, of bs] show ?thesis
    by (simp add: increase_desired_temp_def decrease_desired_temp_def)
qed

theorem setpoint_saturates_witness:
  "65 \<le> desired_temp (presses [Blue, Blue, Red] initial_state)
   \<and> desired_temp (presses [Blue, Blue, Red] initial_state) \<le> 99
   \<and> increase_desired_temp (initial_state\<lparr>desired_temp := 99\<rparr>)
       = initial_state\<lparr>desired_temp := 99\<rparr>
   \<and> decrease_desired_temp (initial_state\<lparr>desired_temp := 65\<rparr>)
       = initial_state\<lparr>desired_temp := 65\<rparr>
   \<and> increase_desired_temp initial_state = initial_state\<lparr>desired_temp := 73\<rparr>
   \<and> decrease_desired_temp initial_state = initial_state\<lparr>desired_temp := 71\<rparr>"
  using setpoint_saturates[of "[Blue, Blue, Red]" "initial_state\<lparr>desired_temp := 99\<rparr>"]
        setpoint_saturates[of "[]" "initial_state\<lparr>desired_temp := 65\<rparr>"]
        setpoint_saturates[of "[]" "initial_state"]
  by (simp add: initial_state_def)

subsection \<open>The HVAC decision\<close>

text \<open>
  C2. Run with the alarm inactive, the HVAC block of one control cycle sets the mode by
  priority: door open gives OFF; otherwise an index below setpoint - 3 gives HEAT; otherwise
  an index above setpoint + 3 gives AC (the source's name for cooling); otherwise OFF. The
  heat output is on exactly in mode HEAT and the cool output exactly in mode AC.
\<close>

theorem hvac_priority:
  "\<not> fire_alarm_active st \<Longrightarrow>
   hvac_state (hvac_control wi avg_temp st) =
     (if door_open st then ''OFF''
      else if wi < desired_temp st - 3 then ''HEAT''
      else if wi > desired_temp st + 3 then ''AC''
      else ''OFF'')
   \<and> red_led (hvac_control wi avg_temp st) = (hvac_state (hvac_control wi avg_temp st) = ''HEAT'')
   \<and> blue_led (hvac_control wi avg_temp st) = (hvac_state (hvac_control wi avg_temp st) = ''AC'')"
  by (cases "door_open st"; cases "wi < desired_temp st - 3"; cases "wi > desired_temp st + 3")
     (auto simp add: hvac_control_def Let_def)

theorem hvac_priority_witness:
  "hvac_state (hvac_control 68 66 initial_state) = ''HEAT''
   \<and> hvac_state (hvac_control 76 73 initial_state) = ''AC''
   \<and> hvac_state (hvac_control 72 69 initial_state) = ''OFF''
   \<and> hvac_state (hvac_control 69 66 initial_state) = ''OFF''
   \<and> hvac_state (hvac_control 68 66 (initial_state\<lparr>door_open := True\<rparr>)) = ''OFF''"
proof -
  have a: "\<not> fire_alarm_active initial_state"
    and b: "\<not> fire_alarm_active (initial_state\<lparr>door_open := True\<rparr>)"
    by (simp_all add: initial_state_def)
  show ?thesis
    using hvac_priority[OF a, of 68 66] hvac_priority[OF a, of 76 73]
      hvac_priority[OF a, of 72 69] hvac_priority[OF a, of 69 66]
      hvac_priority[OF b, of 68 66]
    by (simp add: initial_state_def)
qed

subsection \<open>The door handler\<close>

text \<open>
  C10. A door-button press leaves \<open>hvac_state\<close> as it was, and with it the setpoint,
  the alarm flag, the ambient-light flag and output, the time of the last motion and the
  temperature window. It negates \<open>door_open\<close>; on opening it switches the heat and cool
  outputs off and logs DOOR OPEN, then HVAC OFF; on closing it logs DOOR CLOSED and leaves
  both outputs as they were.
\<close>

theorem toggle_door_state_frame:
  "hvac_state (toggle_door_state st) = hvac_state st
   \<and> desired_temp (toggle_door_state st) = desired_temp st
   \<and> fire_alarm_active (toggle_door_state st) = fire_alarm_active st
   \<and> ambient_light_on (toggle_door_state st) = ambient_light_on st
   \<and> last_motion_time (toggle_door_state st) = last_motion_time st
   \<and> temperature_readings (toggle_door_state st) = temperature_readings st
   \<and> green_led (toggle_door_state st) = green_led st
   \<and> door_open (toggle_door_state st) = (\<not> door_open st)
   \<and> (\<not> door_open st \<longrightarrow>
        \<not> red_led (toggle_door_state st) \<and> \<not> blue_led (toggle_door_state st)
        \<and> log_file (toggle_door_state st) = log_file st @ [''DOOR OPEN'', ''HVAC OFF''])
   \<and> (door_open st \<longrightarrow>
        red_led (toggle_door_state st) = red_led st
        \<and> blue_led (toggle_door_state st) = blue_led st
        \<and> log_file (toggle_door_state st) = log_file st @ [''DOOR CLOSED''])"
  by (simp add: toggle_door_state_def Let_def)

theorem toggle_door_state_frame_witness:
  "hvac_state (toggle_door_state (initial_state\<lparr>hvac_state := ''HEAT'', red_led := True\<rparr>)) = ''HEAT''
   \<and> \<not> red_led (toggle_door_state (initial_state\<lparr>hvac_state := ''HEAT'', red_led := True\<rparr>))
   \<and> log_file (toggle_door_state (initial_state\<lparr>hvac_state := ''HEAT'', red_led := True\<rparr>))
       = [''DOOR OPEN'', ''HVAC OFF'']
   \<and> red_led (toggle_door_state
        (initial_state\<lparr>hvac_state := ''HEAT'', red_led := True, door_open := True\<rparr>))
   \<and> log_file (toggle_door_state
        (initial_state\<lparr>hvac_state := ''HEAT'', red_led := True, door_open := True\<rparr>))
       = [''DOOR CLOSED'']"
  using toggle_door_state_frame[of "initial_state\<lparr>hvac_state := ''HEAT'', red_led := True\<rparr>"]
    toggle_door_state_frame[of
      "initial_state\<lparr>hvac_state := ''HEAT'', red_led := True, door_open := True\<rparr>"]
  by (simp add: initial_state_def)

subsection \<open>A failed sensor read\<close>

text \<open>
  C6. When \<open>readDHT11\<close> reports a failure (a status other than 0), the read returns
  \<open>None\<close> and the state, window included, is the one before the read; the whole
  control cycle then ends without an error and without any change of state, so nothing is
  logged.
\<close>

theorem failed_read_drops_sample:
  "chk r \<noteq> 0 \<Longrightarrow>
   get_average_temperature r st = Inr (None, st) \<and> monitor_environment humidity r st = Inr st"
  by (simp add: get_average_temperature_def monitor_environment_def)

theorem failed_read_drops_sample_witness:
  "get_average_temperature (Reading (- 1) (Finite 21))
       (initial_state\<lparr>temperature_readings := [Finite 70, Finite 71]\<rparr>)
     = Inr (None, initial_state\<lparr>temperature_readings := [Finite 70, Finite 71]\<rparr>)
   \<and> monitor_environment (PInt 55) (Reading (- 1) (Finite 21))
       (initial_state\<lparr>temperature_readings := [Finite 70, Finite 71]\<rparr>)
     = Inr (initial_state\<lparr>temperature_readings := [Finite 70, Finite 71]\<rparr>)"
proof -
  have "chk (Reading (- 1) (Finite 21)) \<noteq> 0" by simp
  from failed_read_drops_sample[OF this] show ?thesis by simp
qed

subsection \<open>Order of the alarm check and the HVAC check\<close>

lemma hvac_control_alarm: "fire_alarm_active st \<Longrightarrow> hvac_control wi avg_temp st = st"
  by (simp add: hvac_control_def)

lemma get_average_temperature_fields:
  assumes "get_average_temperature r st = Inr (a, st')"
  shows "fire_alarm_active st' = fire_alarm_active st" "door_open st' = door_open st"
    "red_led st' = red_led st" "blue_led st' = blue_led st"
    "hvac_state st' = hvac_state st" "lcd st' = lcd st" "log_file st' = log_file st"
  using assms
  by (auto simp: get_average_temperature_def Let_def split: if_splits sum.splits)

text \<open>
  C9. In one pass of the control loop that has an average and an index, the fire-alarm block
  runs on the state left by the sensor read and the HVAC block runs on the state the alarm
  block leaves. Whenever the alarm flag is set at that point the pass ends in exactly the
  state the alarm block left: no display write, no actuator write, no log entry and no change
  of \<open>hvac_state\<close> by the HVAC block. That covers an index above 90, where the alarm
  block itself sets the flag in this pass: the mode and the display are those from before the
  pass and the log gains only the two alarm entries, or nothing when the alarm was on already.
\<close>

theorem alarm_check_before_hvac:
  "get_average_temperature r st = Inr (Some avg_temp, st') \<Longrightarrow>
   times_005 humidity = Inr p \<Longrightarrow> float_of_int avg_temp = Inr a \<Longrightarrow>
   py_round (fadd a p) = Inr wi \<Longrightarrow>
   (let st_a = fire_alarm_check wi st'
    in monitor_environment humidity r st =
         Inr (if fire_alarm_active st_a then st_a else hvac_control wi avg_temp st_a)
       \<and> (90 < wi \<longrightarrow>
            fire_alarm_active st_a
            \<and> monitor_environment humidity r st = Inr st_a
            \<and> hvac_state st_a = hvac_state st
            \<and> lcd st_a = lcd st
            \<and> log_file st_a =
                log_file st @ (if fire_alarm_active st then []
                               else [''FIRE ALARM ON'', ''HVAC OFF''])))"
proof -
  assume g: "get_average_temperature r st = Inr (Some avg_temp, st')"
    and t: "times_005 humidity = Inr p"
    and f: "float_of_int avg_temp = Inr a"
    and w: "py_round (fadd a p) = Inr wi"
  define st_a where "st_a = fire_alarm_check wi st'"
  have m: "monitor_environment humidity r st = Inr (hvac_control wi avg_temp st_a)"
    by (simp add: monitor_environment_def g t f w st_a_def)
  have skip: "fire_alarm_active st_a \<Longrightarrow> hvac_control wi avg_temp st_a = st_a"
    by (rule hvac_control_alarm)
  note fr = get_average_temperature_fields[OF g]
  have hi: "90 < wi \<Longrightarrow> fire_alarm_active st_a \<and> hvac_state st_a = hvac_state st
      \<and> lcd st_a = lcd st
      \<and> log_file st_a = log_file st @ (if fire_alarm_active st then []
                               else [''FIRE ALARM ON'', ''HVAC OFF''])"
    by (simp add: st_a_def fire_alarm_check_def fr)
  show ?thesis
    unfolding Let_def st_a_def[symmetric]
    using m skip hi by auto
qed

theorem alarm_check_before_hvac_witness:
  "monitor_environment (PInt 55) (Reading 0 (Finite 35))
       (initial_state\<lparr>temperature_readings := [Finite 95, Finite 95]\<rparr>)
     = Inr (initial_state\<lparr>temperature_readings := [Finite 95, Finite 95, Finite 95],
              fire_alarm_active := True, door_open := True,
              log_file := [''FIRE ALARM ON'', ''HVAC OFF'']\<rparr>)"
proof -
  have g: "get_average_temperature (Reading 0 (Finite 35))
        (initial_state\<lparr>temperature_readings := [Finite 95, Finite 95]\<rparr>)
     = Inr (Some 95, initial_state\<lparr>temperature_readings := [Finite 95, Finite 95, Finite 95]\<rparr>)"
    by (simp add: eval_defs)
  have t: "times_005 (PInt 55) = Inr (Finite (11 / 4))"
    by (simp add: eval_defs)
  have f: "float_of_int 95 = Inr (Finite 95)"
    by (simp add: eval_defs)
  have w: "py_round (fadd (Finite 95) (Finite (11 / 4))) = Inr 98"
    by (simp add: eval_defs)
  show ?thesis
    using alarm_check_before_hvac[OF g t f w]
    by (simp add: Let_def fire_alarm_check_def initial_state_def log_event_def)
qed

subsection \<open>The fire alarm\<close>

text \<open>What the alarm block does in each of its four cases; it never writes
  \<open>hvac_state\<close>.\<close>

lemma fire_alarm_check_effect:
  "hvac_state (fire_alarm_check wi st) = hvac_state st"
  "\<not> fire_alarm_active st \<Longrightarrow> 90 < wi \<Longrightarrow>
     fire_alarm_check wi st =
       st\<lparr>fire_alarm_active := True, door_open := True, red_led := False, blue_led := False,
          log_file := log_file st @ [''FIRE ALARM ON'', ''HVAC OFF'']\<rparr>"
  "fire_alarm_active st \<Longrightarrow> 90 < wi \<Longrightarrow> fire_alarm_check wi st = st"
  "fire_alarm_active st \<Longrightarrow> wi \<le> 90 \<Longrightarrow>
     fire_alarm_check wi st =
       st\<lparr>fire_alarm_active := False, green_led := False,
          log_file := log_file st @ [''FIRE ALARM OFF''],
          lcd := lcd st @ [Clear, Write 0 0 ''Fire Over'', Write 0 1 ''Resuming...'']\<rparr>"
  "\<not> fire_alarm_active st \<Longrightarrow> wi \<le> 90 \<Longrightarrow> fire_alarm_check wi st = st"
  by (auto simp: fire_alarm_check_def log_event_def lcd_clear_def lcd_write_def)

lemma fire_alarm_check_flag: "fire_alarm_active (fire_alarm_check wi st) = (90 < wi)"
  by (auto simp: fire_alarm_check_def)

text \<open>
  C4. On entry to the alarm the block logs HVAC OFF and switches the heat and cool outputs
  off, but \<open>hvac_state\<close> keeps the mode it had: with the mode HEAT and an index of 91
  the mode after the block is still HEAT. The same is reached from the initial state by three
  reads of 0 degrees Celsius (mode HEAT) and two of 50 (alarm), with humidity 55. Two more
  reads of 0 degrees end the alarm, and the HVAC block, comparing with the stale HEAT, logs
  the change to OFF a second time.
\<close>

theorem fire_alarm_entry_leaves_hvac_state:
  "hvac_state (fire_alarm_check 91 (initial_state\<lparr>hvac_state := ''HEAT'', red_led := True\<rparr>))
     = ''HEAT''
   \<and> log_file (fire_alarm_check 91 (initial_state\<lparr>hvac_state := ''HEAT'', red_led := True\<rparr>))
     = [''FIRE ALARM ON'', ''HVAC OFF'']
   \<and> map_sum id hvac_state
       (run (PInt 55) [Cycle (Reading 0 (Finite 0)), Cycle (Reading 0 (Finite 0)),
          Cycle (Reading 0 (Finite 0)), Cycle (Reading 0 (Finite 50)),
          Cycle (Reading 0 (Finite 50))] initial_state) = Inr ''HEAT''
   \<and> map_sum id log_file
       (run (PInt 55) [Cycle (Reading 0 (Finite 0)), Cycle (Reading 0 (Finite 0)),
          Cycle (Reading 0 (Finite 0)), Cycle (Reading 0 (Finite 50)),
          Cycle (Reading 0 (Finite 50))] initial_state)
     = Inr [''HVAC HEAT'', ''FIRE ALARM ON'', ''HVAC OFF'']
   \<and> map_sum id log_file
       (run (PInt 55) [Cycle (Reading 0 (Finite 0)), Cycle (Reading 0 (Finite 0)),
          Cycle (Reading 0 (Finite 0)), Cycle (Reading 0 (Finite 50)),
          Cycle (Reading 0 (Finite 50)), Cycle (Reading 0 (Finite 0)),
          Cycle (Reading 0 (Finite 0))] initial_state)
     = Inr [''HVAC HEAT'', ''FIRE ALARM ON'', ''HVAC OFF'', ''FIRE ALARM OFF'', ''HVAC OFF'']"
  by (simp add: eval_defs)

subsection \<open>The alarm under interleaving\<close>

lemma fire_alarm_check_outputs_off: "outputs_off st \<Longrightarrow> outputs_off (fire_alarm_check wi st)"
  by (auto simp: outputs_off_def fire_alarm_check_def)

lemma fire_alarm_check_door_forced: "door_forced st \<Longrightarrow> door_forced (fire_alarm_check wi st)"
  by (auto simp: door_forced_def fire_alarm_check_def)

lemma hvac_control_flag: "fire_alarm_active (hvac_control wi avg_temp st) = fire_alarm_active st"
  by (cases "door_open st"; cases "wi < desired_temp st - 3"; cases "wi > desired_temp st + 3")
     (auto simp add: hvac_control_def Let_def)

lemma hvac_control_outputs_off: "outputs_off st \<Longrightarrow> outputs_off (hvac_control wi avg_temp st)"
  using hvac_control_flag[of wi avg_temp st] hvac_control_alarm[of st wi avg_temp]
  by (cases "fire_alarm_active st") (auto simp: outputs_off_def)

lemma hvac_control_door_forced: "door_forced st \<Longrightarrow> door_forced (hvac_control wi avg_temp st)"
  using hvac_control_flag[of wi avg_temp st] hvac_control_alarm[of st wi avg_temp]
  by (cases "fire_alarm_active st") (auto simp: door_forced_def)

lemma monitor_environment_cases:
  assumes "monitor_environment humidity r st = Inr s"
  obtains st' where "get_average_temperature r st = Inr (None, st')" "s = st'"
  | avg_temp st' wi where "get_average_temperature r st = Inr (Some avg_temp, st')"
      "s = hvac_control wi avg_temp (fire_alarm_check wi st')"
  using assms
  by (auto simp: monitor_environment_def split: prod.splits option.splits sum.splits)

lemma monitor_environment_outputs_off:
  assumes "monitor_environment humidity r st = Inr s" "outputs_off st"
  shows "outputs_off s"
  using assms(1)
proof (cases rule: monitor_environment_cases)
  case (1 st')
  with assms(2) get_average_temperature_fields[OF 1(1)] show ?thesis
    by (simp add: outputs_off_def)
next
  case (2 avg_temp st' wi)
  from assms(2) get_average_temperature_fields[OF 2(1)] have "outputs_off st'"
    by (simp add: outputs_off_def)
  then show ?thesis
    unfolding 2(2) by (intro hvac_control_outputs_off fire_alarm_check_outputs_off)
qed

lemma monitor_environment_door_forced:
  assumes "monitor_environment humidity r st = Inr s" "door_forced st"
  shows "door_forced s"
  using assms(1)
proof (cases rule: monitor_environment_cases)
  case (1 st')
  with assms(2) get_average_temperature_fields[OF 1(1)] show ?thesis
    by (simp add: door_forced_def)
next
  case (2 avg_temp st' wi)
  from assms(2) get_average_temperature_fields[OF 2(1)] have "door_forced st'"
    by (simp add: door_forced_def)
  then show ?thesis
    unfolding 2(2) by (intro hvac_control_door_forced fire_alarm_check_door_forced)
qed

lemma step_outputs_off:
  "step humidity e st = Inr s \<Longrightarrow> outputs_off st \<Longrightarrow> outputs_off s"
proof (cases e)
  case (Cycle r)
  then show "step humidity e st = Inr s \<Longrightarrow> outputs_off st \<Longrightarrow> outputs_off s"
    using monitor_environment_outputs_off by simp
next
  case DoorPress
  then show "step humidity e st = Inr s \<Longrightarrow> outputs_off st \<Longrightarrow> outputs_off s"
    by (auto simp: outputs_off_def toggle_door_state_def Let_def split: if_splits)
next
  case (ButtonPress b)
  then show "step humidity e st = Inr s \<Longrightarrow> outputs_off st \<Longrightarrow> outputs_off s"
    by (cases b) (auto simp: outputs_off_def increase_desired_temp_def decrease_desired_temp_def split: if_splits)
next
  case (MotionPoll motion now)
  then show "step humidity e st = Inr s \<Longrightarrow> outputs_off st \<Longrightarrow> outputs_off s"
    by (auto simp: outputs_off_def motion_monitor_def Let_def split: if_splits)
qed

lemma step_door_forced:
  "step humidity e st = Inr s \<Longrightarrow> e \<noteq> DoorPress \<Longrightarrow> door_forced st \<Longrightarrow> door_forced s"
proof (cases e)
  case (Cycle r)
  then show "step humidity e st = Inr s \<Longrightarrow> door_forced st \<Longrightarrow> door_forced s"
    using monitor_environment_door_forced by simp
next
  case DoorPress
  then show "e \<noteq> DoorPress \<Longrightarrow> door_forced s" by simp
next
  case (ButtonPress b)
  then show "step humidity e st = Inr s \<Longrightarrow> door_forced st \<Longrightarrow> door_forced s"
    by (cases b) (auto simp: door_forced_def increase_desired_temp_def decrease_desired_temp_def split: if_splits)
next
  case (MotionPoll motion now)
  then show "step humidity e st = Inr s \<Longrightarrow> door_forced st \<Longrightarrow> door_forced s"
    by (auto simp: door_forced_def motion_monitor_def Let_def split: if_splits)
qed

lemma run_outputs_off:
  "run humidity es st = Inr s \<Longrightarrow> outputs_off st \<Longrightarrow> outputs_off s"
proof (induction es arbitrary: st)
  case Nil
  then show ?case by simp
next
  case (Cons e es)
  from Cons.prems(1) obtain st' where a: "step humidity e st = Inr st'"
    and b: "run humidity es st' = Inr s"
    by (auto split: sum.splits)
  from Cons.IH[OF b step_outputs_off[OF a Cons.prems(2)]] show ?case .
qed

lemma run_door_forced:
  "run humidity es st = Inr s \<Longrightarrow> DoorPress \<notin> set es \<Longrightarrow> door_forced st \<Longrightarrow> door_forced s"
proof (induction es arbitrary: st)
  case Nil
  then show ?case by simp
next
  case (Cons e es)
  from Cons.prems(1) obtain st' where a: "step humidity e st = Inr st'"
    and b: "run humidity es st' = Inr s"
    by (auto split: sum.splits)
  from Cons.prems(2) have c: "e \<noteq> DoorPress" "DoorPress \<notin> set es" by auto
  from Cons.IH[OF b c(2) step_door_forced[OF a c(1) Cons.prems(3)]] show ?case .
qed

text \<open>
  C1, as the claim states it, fails: after three reads of 0 degrees Celsius, two of 50 and
  one press of the door button (humidity 55) the alarm is active, the mode is HEAT and the
  door is closed.
\<close>

theorem alarm_invariant_counterexample:
  "map_sum id fire_alarm_active
     (run (PInt 55) [Cycle (Reading 0 (Finite 0)), Cycle (Reading 0 (Finite 0)), Cycle (Reading 0 (Finite 0)),
        Cycle (Reading 0 (Finite 50)), Cycle (Reading 0 (Finite 50)), DoorPress] initial_state) = Inr True
   \<and> map_sum id hvac_state
     (run (PInt 55) [Cycle (Reading 0 (Finite 0)), Cycle (Reading 0 (Finite 0)), Cycle (Reading 0 (Finite 0)),
        Cycle (Reading 0 (Finite 50)), Cycle (Reading 0 (Finite 50)), DoorPress] initial_state) = Inr ''HEAT''
   \<and> map_sum id door_open
     (run (PInt 55) [Cycle (Reading 0 (Finite 0)), Cycle (Reading 0 (Finite 0)), Cycle (Reading 0 (Finite 0)),
        Cycle (Reading 0 (Finite 50)), Cycle (Reading 0 (Finite 50)), DoorPress] initial_state) = Inr False"
  by (simp add: eval_defs)

text \<open>
  C1, amended. In every state that control cycles, door presses, setpoint presses and motion
  polls reach from the initial state, each taken as one step, an active alarm has the heat
  and the cool output off. From such a state, if the door is open whenever the alarm is
  active, then after any further steps without a door press the door is again open whenever
  the alarm is active: the alarm entry opens the door and only a door press closes it.
\<close>

theorem alarm_keeps_outputs_off:
  "run humidity es initial_state = Inr s \<Longrightarrow>
   (fire_alarm_active s \<longrightarrow> \<not> red_led s \<and> \<not> blue_led s)
   \<and> (\<forall>cs s'. (fire_alarm_active s \<longrightarrow> door_open s) \<and> DoorPress \<notin> set cs
         \<and> run humidity cs s = Inr s' \<and> fire_alarm_active s' \<longrightarrow> door_open s')"
proof -
  assume r: "run humidity es initial_state = Inr s"
  have "outputs_off initial_state" by (simp add: outputs_off_def initial_state_def)
  from run_outputs_off[OF r this] have 1: "fire_alarm_active s \<longrightarrow> \<not> red_led s \<and> \<not> blue_led s"
    by (simp add: outputs_off_def)
  have 2: "door_open s'" if "fire_alarm_active s \<longrightarrow> door_open s" "DoorPress \<notin> set cs"
    "run humidity cs s = Inr s'" "fire_alarm_active s'" for cs s'
    using run_door_forced[OF that(3) that(2)] that(1,4) by (simp add: door_forced_def)
  from 1 2 show ?thesis by blast
qed

theorem alarm_keeps_outputs_off_witness:
  "run (PInt 55) [Cycle (Reading 0 (Finite 50)), Cycle (Reading 0 (Finite 50)), Cycle (Reading 0 (Finite 50))] initial_state
     = Inr (initial_state\<lparr>temperature_readings := [Finite 122, Finite 122, Finite 122], fire_alarm_active := True,
              door_open := True, log_file := [''FIRE ALARM ON'', ''HVAC OFF'']\<rparr>)
   \<and> \<not> red_led (initial_state\<lparr>temperature_readings := [Finite 122, Finite 122, Finite 122],
              fire_alarm_active := True, door_open := True,
              log_file := [''FIRE ALARM ON'', ''HVAC OFF'']\<rparr>)
   \<and> \<not> blue_led (initial_state\<lparr>temperature_readings := [Finite 122, Finite 122, Finite 122],
              fire_alarm_active := True, door_open := True,
              log_file := [''FIRE ALARM ON'', ''HVAC OFF'']\<rparr>)
   \<and> door_open (initial_state\<lparr>temperature_readings := [Finite 122, Finite 122, Finite 122],
              fire_alarm_active := True, door_open := True,
              log_file := [''FIRE ALARM ON'', ''HVAC OFF'']\<rparr>)"
proof -
  let ?c = "Cycle (Reading 0 (Finite 50))"
  let ?s2 = "initial_state\<lparr>temperature_readings := [Finite 122, Finite 122]\<rparr>"
  let ?s3 = "initial_state\<lparr>temperature_readings := [Finite 122, Finite 122, Finite 122], fire_alarm_active := True,
              door_open := True, log_file := [''FIRE ALARM ON'', ''HVAC OFF'']\<rparr>"
  have r3: "run (PInt 55) [?c, ?c, ?c] initial_state = Inr ?s3" by (simp add: eval_defs)
  have r2: "run (PInt 55) [?c, ?c] initial_state = Inr ?s2" by (simp add: eval_defs)
  have r1: "run (PInt 55) [?c] ?s2 = Inr ?s3" by (simp add: eval_defs)
  have pre: "(fire_alarm_active ?s2 \<longrightarrow> door_open ?s2) \<and> DoorPress \<notin> set [?c]
      \<and> run (PInt 55) [?c] ?s2 = Inr ?s3 \<and> fire_alarm_active ?s3"
    using r1 by (simp add: initial_state_def)
  from alarm_keeps_outputs_off[OF r3] have a: "\<not> red_led ?s3 \<and> \<not> blue_led ?s3"
    by (simp add: initial_state_def)
  from alarm_keeps_outputs_off[OF r2] pre have b: "door_open ?s3" by blast
  from r3 a b show ?thesis by simp
qed

subsection \<open>The sensor filter\<close>

lemma deque_append_drop:
  "length w \<le> 3 \<Longrightarrow> deque_append w x = drop (length w + 1 - 3) (w @ [x])"
proof (cases "length w = 3")
  case True
  then have "length w + 1 - 3 = Suc 0" by simp
  moreover from True have "w \<noteq> []" by auto
  ultimately show ?thesis using True by (simp add: deque_append_def Let_def drop_Suc)
next
  case False
  assume "length w \<le> 3"
  with False have "length w + 1 - 3 = 0" and "\<not> length (w @ [x]) > 3" by simp_all
  then show ?thesis by (simp add: deque_append_def Let_def)
qed

lemma get_average_temperature_ok:
  "chk r = 0 \<Longrightarrow>
   get_average_temperature r st =
     (let w' = deque_append (temperature_readings st) (fahrenheit (temp_c r))
      in if length w' = 3
         then (case window_average w' of
                 Inl e \<Rightarrow> Inl e
               | Inr avg \<Rightarrow> Inr (Some avg, st\<lparr>temperature_readings := w'\<rparr>))
         else Inr (None, st\<lparr>temperature_readings := w'\<rparr>))"
  by (simp add: get_average_temperature_def Let_def)

lemma pushes_snoc:
  "pushes (rs @ [r]) st =
     (case pushes rs st of
        Inl e \<Rightarrow> Inl e
      | Inr (as, st') \<Rightarrow>
          (case get_average_temperature r st' of
             Inl e \<Rightarrow> Inl e
           | Inr (a, st'') \<Rightarrow> Inr (as @ [a], st'')))"
  by (induction rs arbitrary: st) (auto split: sum.splits prod.splits)

lemma last_three:
  "2 \<le> n \<Longrightarrow> n < length xs \<Longrightarrow>
   drop (n - 2) (take (Suc n) xs) = [xs ! (n - 2), xs ! (n - 1), xs ! n]"
proof -
  assume n: "2 \<le> n" "n < length xs"
  then obtain k where k: "n = k + 2" by (metis add.commute le_Suc_ex)
  have len: "length (drop k (take (Suc (k + 2)) xs)) = 3" using n k by simp
  have "drop k (take (Suc (k + 2)) xs) = [xs ! k, xs ! (k + 1), xs ! (k + 2)]"
  proof (rule nth_equalityI)
    show "length (drop k (take (Suc (k + 2)) xs)) = length [xs ! k, xs ! (k + 1), xs ! (k + 2)]"
      using len by simp
  next
    fix i assume "i < length (drop k (take (Suc (k + 2)) xs))"
    with len have "i < 3" by simp
    then consider "i = 0" | "i = 1" | "i = 2" by linarith
    then show "drop k (take (Suc (k + 2)) xs) ! i = [xs ! k, xs ! (k + 1), xs ! (k + 2)] ! i"
      using n k by cases simp_all
  qed
  with k show ?thesis by simp
qed

text \<open>
  C3. Take any sequence of successful reads from the initial state in which every full window
  has a mean that \<open>round\<close> accepts (it is neither an infinity nor a NaN). Then no read
  raises, the first and the second read return \<open>None\<close>, and every read from the third on
  returns \<open>round(sum(w) / 3)\<close> for the window \<open>w\<close> of the Fahrenheit values of that
  read and the two before it, in the order read. The window left at the end holds the last
  three Fahrenheit values pushed (all of them when fewer than three were pushed), and so
  never more than three.
\<close>

theorem sensor_filter_sliding_window:
  assumes ok: "\<forall>r\<in>set rs. chk r = 0"
    and av: "\<forall>n<length rs. 2 \<le> n \<longrightarrow>
        window_average [fahrenheit (temp_c (rs ! (n - 2))), fahrenheit (temp_c (rs ! (n - 1))),
                        fahrenheit (temp_c (rs ! n))] = Inr (avg n)"
  shows "pushes rs initial_state =
      Inr (map (\<lambda>n. if n < 2 then None else Some (avg n)) [0..<length rs],
           initial_state\<lparr>temperature_readings :=
             drop (length rs - 3) (map (\<lambda>r. fahrenheit (temp_c r)) rs)\<rparr>)
    \<and> length (drop (length rs - 3) (map (\<lambda>r. fahrenheit (temp_c r)) rs)) \<le> 3"
proof -
  let ?F = "\<lambda>r. fahrenheit (temp_c r)"
  let ?out = "\<lambda>n. if n < 2 then None else Some (avg n)"
  have main: "pushes rs initial_state =
      Inr (map ?out [0..<length rs],
           initial_state\<lparr>temperature_readings := drop (length rs - 3) (map ?F rs)\<rparr>)"
    using ok av
  proof (induction rs rule: rev_induct)
    case Nil
    show ?case by (simp add: initial_state_def)
  next
    case (snoc r rs)
    let ?n = "length rs"
    let ?rs' = "rs @ [r]"
    have okr: "chk r = 0" and okrs: "\<forall>r\<in>set rs. chk r = 0"
      using snoc.prems(1) by auto
    have avrs: "\<forall>n<length rs. 2 \<le> n \<longrightarrow>
        window_average [?F (rs ! (n - 2)), ?F (rs ! (n - 1)), ?F (rs ! n)] = Inr (avg n)"
    proof (intro allI impI)
      fix n assume n: "n < length rs" "2 \<le> n"
      then have "n < length ?rs'" by simp
      with snoc.prems(2) n(2)
      have "window_average [?F (?rs' ! (n - 2)), ?F (?rs' ! (n - 1)), ?F (?rs' ! n)] = Inr (avg n)"
        by blast
      moreover from n have "n - 2 < length rs" "n - 1 < length rs"
        by arith+
      with n have "?rs' ! (n - 2) = rs ! (n - 2)" "?rs' ! (n - 1) = rs ! (n - 1)"
        "?rs' ! n = rs ! n"
        by (simp_all only: nth_append if_True)
      ultimately
      show "window_average [?F (rs ! (n - 2)), ?F (rs ! (n - 1)), ?F (rs ! n)] = Inr (avg n)"
        by simp
    qed
    define w where "w = drop (?n - 3) (map ?F rs)"
    define W where "W = drop (Suc ?n - 3) (map ?F ?rs')"
    let ?st = "initial_state\<lparr>temperature_readings := w\<rparr>"
    have IH: "pushes rs initial_state = Inr (map ?out [0..<?n], ?st)"
      using snoc.IH[OF okrs avrs] unfolding w_def .
    have lw: "length w \<le> 3" unfolding w_def by simp
    have w': "deque_append w (?F r) = W"
    proof -
      have "deque_append w (?F r) = drop (length w + 1 - 3) (w @ [?F r])"
        by (rule deque_append_drop[OF lw])
      also have "\<dots> = W"
      proof (cases "?n < 3")
        case True
        then show ?thesis unfolding w_def W_def by simp
      next
        case False
        then have "Suc (?n - 3) = ?n - 2" by simp
        with False show ?thesis unfolding w_def W_def by simp
      qed
      finally show ?thesis .
    qed
    have lW: "length W = (if ?n < 2 then Suc ?n else 3)"
      unfolding W_def by auto
    have gat: "get_average_temperature r ?st =
        (if length W = 3
         then (case window_average W of
                 Inl e \<Rightarrow> Inl e
               | Inr avg \<Rightarrow> Inr (Some avg, initial_state\<lparr>temperature_readings := W\<rparr>))
         else Inr (None, initial_state\<lparr>temperature_readings := W\<rparr>))"
    proof -
      have tr: "temperature_readings ?st = w" by simp
      have up: "?st\<lparr>temperature_readings := W\<rparr> = initial_state\<lparr>temperature_readings := W\<rparr>"
        by simp
      show ?thesis
        using get_average_temperature_ok[OF okr, of ?st] unfolding Let_def tr w' up .
    qed
    have last: "get_average_temperature r ?st =
        Inr (?out ?n, initial_state\<lparr>temperature_readings := W\<rparr>)"
    proof (cases "?n < 2")
      case True
      with lW have "length W \<noteq> 3" by simp
      with True show ?thesis unfolding gat by simp
    next
      case False
      then have n2: "2 \<le> ?n" by simp
      have nl: "?n < length ?rs'" by simp
      have d: "Suc ?n - 3 = ?n - 2" using n2 by simp
      have tk: "take (Suc ?n) ?rs' = ?rs'" by simp
      have "W = map ?F (drop (?n - 2) (take (Suc ?n) ?rs'))"
        unfolding W_def d tk by (simp only: drop_map)
      also have "\<dots> = [?F (?rs' ! (?n - 2)), ?F (?rs' ! (?n - 1)), ?F (?rs' ! ?n)]"
        by (simp only: last_three[OF n2 nl] list.map)
      finally have l3: "W = [?F (?rs' ! (?n - 2)), ?F (?rs' ! (?n - 1)), ?F (?rs' ! ?n)]" .
      from snoc.prems(2) nl n2
      have "window_average [?F (?rs' ! (?n - 2)), ?F (?rs' ! (?n - 1)), ?F (?rs' ! ?n)]
          = Inr (avg ?n)"
        by blast
      then have wa: "window_average W = Inr (avg ?n)" unfolding l3 .
      from lW False have "length W = 3" by simp
      with False wa show ?thesis unfolding gat by simp
    qed
    have "pushes ?rs' initial_state =
        Inr (map ?out [0..<?n] @ [?out ?n], initial_state\<lparr>temperature_readings := W\<rparr>)"
      unfolding pushes_snoc IH by (simp only: sum.case prod.case last)
    moreover have "map ?out [0..<?n] @ [?out ?n] = map ?out [0..<length ?rs']" by simp
    moreover have "W = drop (length ?rs' - 3) (map ?F ?rs')" unfolding W_def by simp
    ultimately show ?case by (simp only:)
  qed
  then show ?thesis by simp
qed

theorem sensor_filter_sliding_window_witness:
  "pushes [Reading 0 (Finite (43 / 2)), Reading 0 (Finite 23), Reading 0 (Finite 23),
           Reading 0 (Finite 25)] initial_state
     = Inr ([None, None, Some 73, Some 75],
            initial_state\<lparr>temperature_readings :=
              [fahrenheit (Finite 23), fahrenheit (Finite 23), fahrenheit (Finite 25)]\<rparr>)"
proof -
  let ?rs = "[Reading 0 (Finite (43 / 2)), Reading 0 (Finite 23), Reading 0 (Finite 23),
           Reading 0 (Finite 25)]"
  let ?avg = "\<lambda>n::nat. if n = 2 then 73 else (75::int)"
  have h: "\<forall>r\<in>set ?rs. chk r = 0" by simp
  have a2: "window_average [fahrenheit (Finite (43 / 2)), fahrenheit (Finite 23),
      fahrenheit (Finite 23)] = Inr 73"
    by code_simp
  have a3: "window_average [fahrenheit (Finite 23), fahrenheit (Finite 23),
      fahrenheit (Finite 25)] = Inr 75"
    by code_simp
  have av: "\<forall>n<length ?rs. 2 \<le> n \<longrightarrow>
        window_average [fahrenheit (temp_c (?rs ! (n - 2))), fahrenheit (temp_c (?rs ! (n - 1))),
                        fahrenheit (temp_c (?rs ! n))] = Inr (?avg n)"
  proof (intro allI impI)
    fix n :: nat assume "n < length ?rs" "2 \<le> n"
    then consider "n = 2" | "n = 3" by fastforce
    then show "window_average [fahrenheit (temp_c (?rs ! (n - 2))),
        fahrenheit (temp_c (?rs ! (n - 1))), fahrenheit (temp_c (?rs ! n))] = Inr (?avg n)"
      using a2 a3 by cases (simp_all add: numeral_3_eq_3)
  qed
  have u: "[0..<length ?rs] = [0, 1, 2, 3]"
    by (simp add: upt_rec)
  from sensor_filter_sliding_window[OF h av] show ?thesis
    by (simp add: u)
qed

subsection \<open>The motion monitor\<close>

lemma motion_polls_light_off:
  "\<not> ambient_light_on st \<Longrightarrow> \<forall>p\<in>set ps. \<not> fst p \<Longrightarrow> motion_polls ps st = st"
proof (induction ps arbitrary: st)
  case Nil
  then show ?case by simp
next
  case (Cons p ps)
  obtain m t where p: "p = (m, t)" by (cases p)
  with Cons.prems have "motion_monitor m t st = st"
    by (simp add: motion_monitor_def)
  with Cons p show ?case by simp
qed

lemma motion_polls_absent:
  "ambient_light_on st \<Longrightarrow> \<not> fire_alarm_active st \<Longrightarrow> \<forall>p\<in>set ps. \<not> fst p \<Longrightarrow>
   motion_polls ps st =
     (if \<exists>p\<in>set ps. snd p - last_motion_time st > 10
      then log_event ''LIGHTS OFF'' (st\<lparr>green_led := False, ambient_light_on := False\<rparr>)
      else st)"
proof (induction ps arbitrary: st)
  case Nil
  then show ?case by simp
next
  case (Cons p ps)
  obtain m t where p: "p = (m, t)" by (cases p)
  from Cons.prems(3) p have m: "\<not> m" and rest: "\<forall>p\<in>set ps. \<not> fst p" by auto
  show ?case
  proof (cases "t - last_motion_time st > 10")
    case True
    let ?off = "log_event ''LIGHTS OFF'' (st\<lparr>green_led := False, ambient_light_on := False\<rparr>)"
    from True m Cons.prems(1,2) have "motion_monitor m t st = ?off"
      by (simp add: motion_monitor_def)
    moreover have "motion_polls ps ?off = ?off"
      by (rule motion_polls_light_off[OF _ rest]) simp
    ultimately show ?thesis using True p by auto
  next
    case False
    with m Cons.prems(1,2) have "motion_monitor m t st = st"
      by (simp add: motion_monitor_def)
    with Cons.IH[OF Cons.prems(1,2) rest] False p show ?thesis by auto
  qed
qed

text \<open>
  C5. While the alarm is active a poll leaves the state as it is, whatever the sensor and
  the clock say. A poll turns the ambient light off only when there is no motion, the alarm
  is inactive and more than 10 seconds have passed since the last motion; it then switches
  the output off and logs LIGHTS OFF once. Over any sequence of polls without motion,
  starting with the light on and the alarm inactive: if no poll comes more than 10 seconds
  after the last motion nothing changes, otherwise the light goes off and the log gains
  exactly one LIGHTS OFF entry.
\<close>

theorem motion_light_decay:
  "(fire_alarm_active st \<longrightarrow> motion_monitor motion now st = st)
   \<and> (ambient_light_on st \<and> \<not> ambient_light_on (motion_monitor motion now st) \<longrightarrow>
        \<not> motion \<and> now - last_motion_time st > 10 \<and> \<not> fire_alarm_active st)
   \<and> (\<not> fire_alarm_active st \<and> \<not> motion \<and> ambient_light_on st
        \<and> now - last_motion_time st > 10 \<longrightarrow>
        motion_monitor motion now st =
          st\<lparr>green_led := False, ambient_light_on := False,
             log_file := log_file st @ [''LIGHTS OFF'']\<rparr>)
   \<and> (\<not> fire_alarm_active st \<and> ambient_light_on st \<and> (\<forall>p\<in>set ps. \<not> fst p) \<longrightarrow>
        motion_polls ps st =
          (if \<exists>p\<in>set ps. snd p - last_motion_time st > 10
           then st\<lparr>green_led := False, ambient_light_on := False,
                   log_file := log_file st @ [''LIGHTS OFF'']\<rparr>
           else st))"
proof -
  have 1: "fire_alarm_active st \<longrightarrow> motion_monitor motion now st = st"
    by (simp add: motion_monitor_def)
  have 2: "ambient_light_on st \<and> \<not> ambient_light_on (motion_monitor motion now st) \<longrightarrow>
        \<not> motion \<and> now - last_motion_time st > 10 \<and> \<not> fire_alarm_active st"
    by (auto simp: motion_monitor_def Let_def split: if_splits)
  have 3: "\<not> fire_alarm_active st \<and> \<not> motion \<and> ambient_light_on st
        \<and> now - last_motion_time st > 10 \<longrightarrow>
        motion_monitor motion now st =
          st\<lparr>green_led := False, ambient_light_on := False,
             log_file := log_file st @ [''LIGHTS OFF'']\<rparr>"
    by (simp add: motion_monitor_def log_event_def)
  have 4: "\<not> fire_alarm_active st \<and> ambient_light_on st \<and> (\<forall>p\<in>set ps. \<not> fst p) \<longrightarrow>
        motion_polls ps st =
          (if \<exists>p\<in>set ps. snd p - last_motion_time st > 10
           then st\<lparr>green_led := False, ambient_light_on := False,
                   log_file := log_file st @ [''LIGHTS OFF'']\<rparr>
           else st)"
    using motion_polls_absent[of st ps] by (simp add: log_event_def)
  from 1 2 3 4 show ?thesis by blast
qed

theorem motion_light_decay_witness:
  "motion_polls [(True, 0), (True, 5)] initial_state
     = initial_state\<lparr>ambient_light_on := True, green_led := True, last_motion_time := 5,
         log_file := [''LIGHTS ON'']\<rparr>
   \<and> motion_polls [(False, 6), (False, 14)]
        (initial_state\<lparr>ambient_light_on := True, green_led := True, last_motion_time := 5,
           log_file := [''LIGHTS ON'']\<rparr>)
     = initial_state\<lparr>ambient_light_on := True, green_led := True, last_motion_time := 5,
         log_file := [''LIGHTS ON'']\<rparr>
   \<and> motion_polls [(False, 14), (False, 16), (False, 17)]
        (initial_state\<lparr>ambient_light_on := True, green_led := True, last_motion_time := 5,
           log_file := [''LIGHTS ON'']\<rparr>)
     = initial_state\<lparr>ambient_light_on := False, green_led := False, last_motion_time := 5,
         log_file := [''LIGHTS ON'', ''LIGHTS OFF'']\<rparr>
   \<and> motion_monitor False 16
        (initial_state\<lparr>ambient_light_on := True, green_led := True, last_motion_time := 5,
           log_file := [''LIGHTS ON'']\<rparr>)
     = initial_state\<lparr>ambient_light_on := False, green_led := False, last_motion_time := 5,
         log_file := [''LIGHTS ON'', ''LIGHTS OFF'']\<rparr>
   \<and> motion_monitor True 20
        (initial_state\<lparr>ambient_light_on := True, green_led := True, last_motion_time := 5,
           log_file := [''LIGHTS ON''], fire_alarm_active := True\<rparr>)
     = initial_state\<lparr>ambient_light_on := True, green_led := True, last_motion_time := 5,
         log_file := [''LIGHTS ON''], fire_alarm_active := True\<rparr>"
proof -
  let ?on = "initial_state\<lparr>ambient_light_on := True, green_led := True, last_motion_time := 5,
         log_file := [''LIGHTS ON'']\<rparr>"
  have 0: "motion_polls [(True, 0), (True, 5)] initial_state = ?on"
    by (simp add: motion_monitor_def initial_state_def log_event_def)
  have h: "\<not> fire_alarm_active ?on \<and> ambient_light_on ?on"
    and l: "last_motion_time ?on = 5"
    by (simp_all add: initial_state_def)
  have a: "\<not> fire_alarm_active ?on \<and> ambient_light_on ?on
      \<and> (\<forall>p\<in>set [(False, 6), (False, 14 :: rat)]. \<not> fst p)"
    and b: "\<not> fire_alarm_active ?on \<and> ambient_light_on ?on
      \<and> (\<forall>p\<in>set [(False, 14), (False, 16), (False, 17 :: rat)]. \<not> fst p)"
    and c: "\<not> fire_alarm_active ?on \<and> \<not> False \<and> ambient_light_on ?on
      \<and> 16 - last_motion_time ?on > 10"
    and d: "fire_alarm_active (?on\<lparr>fire_alarm_active := True\<rparr>)"
    using h l by simp_all
  show ?thesis
    using 0 a b c d
      motion_light_decay[of ?on False 16 "[(False, 6), (False, 14)]"]
      motion_light_decay[of ?on False 16 "[(False, 14), (False, 16), (False, 17)]"]
      motion_light_decay[of "?on\<lparr>fire_alarm_active := True\<rparr>" True 20 "[]"]
    by (simp add: initial_state_def)
qed

subsection \<open>The humidity fetch\<close>

text \<open>
  C7, as the claim states it, fails: a response with status 200 whose body gives the
  humidity 150 is returned as 150, outside [0, 100], and one that gives a string is returned
  as that string.
\<close>

theorem get_humidity_counterexample:
  "get_humidity (Response 200 (Some (PDict [(''main'', PDict [(''humidity'', PInt 150)])])))
     = PInt 150
   \<and> \<not> humidity_in_contract
       (get_humidity (Response 200 (Some (PDict [(''main'', PDict [(''humidity'', PInt 150)])]))))
   \<and> get_humidity (Response 200 (Some (PDict [(''main'', PDict [(''humidity'', PStr ''n/a'')])])))
     = PStr ''n/a''"
  by (simp add: get_humidity_def)

text \<open>
  C7, amended. The fetch returns 55 when the request raises, when the status is not 200,
  when the body does not parse and when the body has no \<open>main\<close> or no
  \<open>humidity\<close> entry; it is a total function, so no error reaches the caller. On a
  response with status 200 that has both entries it returns the entry as it is. The result is
  therefore an integer in [0, 100] unless the response itself carried a value that is not.
\<close>

theorem get_humidity_fallback:
  "get_humidity RequestException = PInt 55
   \<and> (status_code \<noteq> 200 \<longrightarrow> get_humidity (Response status_code body) = PInt 55)
   \<and> get_humidity (Response 200 None) = PInt 55
   \<and> (subscript j ''main'' = None \<longrightarrow> get_humidity (Response 200 (Some j)) = PInt 55)
   \<and> (subscript j ''main'' = Some m \<and> subscript m ''humidity'' = None \<longrightarrow>
        get_humidity (Response 200 (Some j)) = PInt 55)
   \<and> (subscript j ''main'' = Some m \<and> subscript m ''humidity'' = Some h \<longrightarrow>
        get_humidity (Response 200 (Some j)) = h)
   \<and> (humidity_in_contract (get_humidity res)
        \<or> (\<exists>j' m' h'. res = Response 200 (Some j') \<and> subscript j' ''main'' = Some m'
              \<and> subscript m' ''humidity'' = Some h' \<and> get_humidity res = h'
              \<and> \<not> humidity_in_contract h'))"
  by (auto simp: get_humidity_def split: http_result.splits option.splits)

theorem get_humidity_fallback_witness:
  "get_humidity (Response 404 (Some (PDict [(''main'', PDict [(''humidity'', PInt 40)])])))
     = PInt 55
   \<and> get_humidity (Response 200 (Some (PList []))) = PInt 55
   \<and> get_humidity (Response 200 (Some (PDict [(''main'', PDict [(''temp'', PInt 70)])])))
     = PInt 55
   \<and> get_humidity (Response 200 (Some (PDict [(''main'', PDict [(''humidity'', PInt 40)])])))
     = PInt 40"
  using get_humidity_fallback[of 404 "Some (PDict [(''main'', PDict [(''humidity'', PInt 40)])])"
          "PList []" PNone PNone RequestException]
    get_humidity_fallback[of 200 None "PDict [(''main'', PDict [(''temp'', PInt 70)])]"
          "PDict [(''temp'', PInt 70)]" PNone RequestException]
    get_humidity_fallback[of 200 None "PDict [(''main'', PDict [(''humidity'', PInt 40)])]"
          "PDict [(''humidity'', PInt 40)]" "PInt 40" RequestException]
  by simp

end
